theory Spec2Isabelle
  imports Main
begin

section \<open>The project modal of the portfolio page (script.js)\<close>

text \<open>
  The modal controller of \<^verbatim>\<open>script.js\<close> (the second \<^verbatim>\<open>DOMContentLoaded\<close> handler)
  is embedded as functions on an explicit page state: the attributes and elements of
  the overlay that the controller writes, the \<^verbatim>\<open>overflow\<close> style of the body and the
  session history of the browser. The cards of the page are never written by the
  controller; they are a parameter.
\<close>

subsection \<open>Strings\<close>

text \<open>
  A JavaScript string is a sequence of code units. The model covers the code units
  below 256 and the replacement character U+FFFD, which the HTML parser and
  \<^verbatim>\<open>CSS.escape\<close> write in place of U+0000: this set is closed under every operation
  of the script, and on it \<^verbatim>\<open>trim\<close>, \<^verbatim>\<open>toLowerCase\<close>, \<^verbatim>\<open>encodeURIComponent\<close> and
  \<^verbatim>\<open>CSS.escape\<close> are written out in full. An attribute read (\<^verbatim>\<open>getAttribute\<close>) is an
  optional string, \<^term>\<open>None\<close> for \<^verbatim>\<open>null\<close>.
\<close>

datatype code_unit = Latin1 char | Replacement

type_synonym js_string = "code_unit list"

text \<open>A string literal of the script.\<close>

definition str :: "string \<Rightarrow> js_string" where
  "str s = map Latin1 s"

text \<open>\<^verbatim>\<open>a || b\<close> on a string \<^verbatim>\<open>a\<close>: the empty string is falsy.\<close>

definition or_str :: "js_string \<Rightarrow> js_string \<Rightarrow> js_string" where
  "or_str a b = (if a = [] then b else a)"

text \<open>\<^verbatim>\<open>a || b\<close> on an attribute read \<^verbatim>\<open>a\<close>: \<^verbatim>\<open>null\<close> and the empty string are falsy.\<close>

definition or_attr :: "js_string option \<Rightarrow> js_string \<Rightarrow> js_string" where
  "or_attr a b = (case a of None \<Rightarrow> b | Some v \<Rightarrow> or_str v b)"

text \<open>
  The white space and line terminators of ECMAScript among the modelled code units:
  the six below 33 and the no-break space 160.
\<close>

fun is_white_space :: "code_unit \<Rightarrow> bool" where
  "is_white_space (Latin1 c) = ((of_char c :: nat) \<in> {9, 10, 11, 12, 13, 32, 160})"
| "is_white_space Replacement = False"

definition trim :: "js_string \<Rightarrow> js_string" where
  "trim s = rev (dropWhile is_white_space (rev (dropWhile is_white_space s)))"

text \<open>
  \<^verbatim>\<open>toLowerCase\<close>: A to Z, and the Latin-1 capitals 192 to 222 except the multiplication
  sign 215, move up by 32; every other modelled code unit stays.
\<close>

fun lower_char :: "code_unit \<Rightarrow> code_unit" where
  "lower_char (Latin1 c) =
     (let n = (of_char c :: nat)
      in if (65 \<le> n \<and> n \<le> 90) \<or> (192 \<le> n \<and> n \<le> 222 \<and> n \<noteq> 215)
         then Latin1 (char_of (n + 32)) else Latin1 c)"
| "lower_char Replacement = Replacement"

definition toLowerCase :: "js_string \<Rightarrow> js_string" where
  "toLowerCase s = map lower_char s"

text \<open>\<^verbatim>\<open>s.split(',')\<close>: the pieces between the separators, empty pieces included.\<close>

fun split :: "code_unit \<Rightarrow> js_string \<Rightarrow> js_string list" where
  "split d [] = [[]]"
| "split d (c # cs) =
     (if c = d then [] # split d cs
      else (case split d cs of [] \<Rightarrow> [[c]] | w # ws \<Rightarrow> (c # w) # ws))"

text \<open>
  \<^verbatim>\<open>encodeURIComponent\<close>: the unreserved characters stay, every other code unit is
  written as the percent-escaped bytes of its UTF-8 encoding (one byte below 128, two
  bytes from 128 to 255, the three bytes EF BF BD for U+FFFD).
\<close>

definition unreserved :: "char \<Rightarrow> bool" where
  "unreserved c =
     (let n = (of_char c :: nat)
      in (65 \<le> n \<and> n \<le> 90) \<or> (97 \<le> n \<and> n \<le> 122) \<or> (48 \<le> n \<and> n \<le> 57)
         \<or> c \<in> set ''-_.!~*'()'')"

definition hex_digit :: "nat \<Rightarrow> char" where
  "hex_digit k = ''0123456789ABCDEF'' ! (k mod 16)"

definition percent :: "nat \<Rightarrow> string" where
  "percent b = [CHR ''%'', hex_digit (b div 16), hex_digit b]"

fun encode_unit :: "code_unit \<Rightarrow> string" where
  "encode_unit (Latin1 c) =
     (let n = (of_char c :: nat)
      in if unreserved c then [c]
         else if n < 128 then percent n
         else percent (192 + n div 64) @ percent (128 + n mod 64))"
| "encode_unit Replacement = percent 239 @ percent 191 @ percent 189"

definition encodeURIComponent :: "js_string \<Rightarrow> js_string" where
  "encodeURIComponent s = str (concat (map encode_unit s))"

text \<open>
  The attribute value that the selector \<^verbatim>\<open>[data-id="..."]\<close> built from \<^verbatim>\<open>CSS.escape(id)\<close>
  asks for. \<^verbatim>\<open>CSS.escape\<close> writes U+0000 as U+FFFD and puts a backslash escape wherever
  the syntax of a selector needs one; the parser of the selector undoes the escapes.
  What is left of the two is the id with U+FFFD in place of every U+0000.
\<close>

definition CSS_escape_value :: "js_string \<Rightarrow> js_string" where
  "CSS_escape_value pid = map (\<lambda>u. if u = Latin1 (CHR 0x00) then Replacement else u) pid"

subsection \<open>URL search parameters and the session history\<close>

text \<open>
  \<^verbatim>\<open>URLSearchParams\<close> is the list of the decoded name-value pairs of the query, in
  order. \<^verbatim>\<open>get\<close> reads the first pair of a name, \<^verbatim>\<open>set\<close> overwrites the first pair and
  drops the others (or appends), \<^verbatim>\<open>delete\<close> drops every pair of the name.
\<close>

type_synonym search_params = "(js_string \<times> js_string) list"

definition sp_get :: "js_string \<Rightarrow> search_params \<Rightarrow> js_string option" where
  "sp_get k ps = map_of ps k"

definition sp_has :: "js_string \<Rightarrow> search_params \<Rightarrow> bool" where
  "sp_has k ps = (map_of ps k \<noteq> None)"

definition sp_delete :: "js_string \<Rightarrow> search_params \<Rightarrow> search_params" where
  "sp_delete k ps = filter (\<lambda>p. fst p \<noteq> k) ps"

fun sp_set :: "js_string \<Rightarrow> js_string \<Rightarrow> search_params \<Rightarrow> search_params" where
  "sp_set k v [] = [(k, v)]"
| "sp_set k v (p # ps) =
     (if fst p = k then (k, v) # sp_delete k ps else p # sp_set k v ps)"

record url =
  url_path :: js_string
  searchParams :: search_params
  url_hash :: js_string

text \<open>
  The state payload of a history entry: \<^verbatim>\<open>null\<close> for an entry the controller did not
  push, \<^verbatim>\<open>{}\<close> or \<^verbatim>\<open>{ project: id }\<close>.
\<close>

datatype payload = Null | Empty | Project js_string

record history_entry =
  entry_state :: payload
  entry_url :: url

subsection \<open>Cards, badges and the page state\<close>

text \<open>
  A card: its four data attributes and the \<^verbatim>\<open>src\<close> of its first nested image
  (\<^verbatim>\<open>card.querySelector('img')?.src\<close>, \<^term>\<open>None\<close> when there is no image).
\<close>

record card =
  data_id :: "js_string option"
  data_title :: "js_string option"
  data_img :: "js_string option"
  data_tools :: "js_string option"
  nested_img_src :: "js_string option"

record tool_descriptor =
  class_name :: js_string
  ariaLabel :: js_string
  label :: js_string
  isImage :: bool

record label_span =
  span_className :: js_string
  span_role :: "js_string option"
  span_ariaLabel :: "js_string option"
  textContent :: js_string

record bubble =
  className :: js_string
  bubble_ariaLabel :: js_string
  labelSpan :: label_span

record image_el =
  src :: js_string
  alt :: js_string

text \<open>
  The state the controller reads and writes. An optional element of the overlay
  (\<^verbatim>\<open>.modal-title\<close>, \<^verbatim>\<open>.project-image\<close>, \<^verbatim>\<open>.modal-flags\<close>, \<^verbatim>\<open>.modal-frame\<close>) is
  \<^term>\<open>None\<close> when \<^verbatim>\<open>querySelector\<close> found nothing. The session history is the
  entries behind the current one (nearest first), the current entry, whose URL is
  \<^verbatim>\<open>window.location\<close>, and the entries ahead of it.
\<close>

record page =
  aria_hidden :: "js_string option"
  body_overflow :: js_string
  titleEl :: "js_string option"
  imgEl :: "image_el option"
  modalFlags :: "bubble list option"
  frame_focused :: "bool option"
  hist_past :: "history_entry list"
  hist_current :: history_entry
  hist_future :: "history_entry list"

definition location :: "page \<Rightarrow> url" where
  "location s = entry_url (hist_current s)"

text \<open>
  \<^verbatim>\<open>history.pushState(state, '', url)\<close>: the browser drops the entries ahead, keeps the
  current entry behind the new one and makes the new one current.
\<close>

definition pushState :: "payload \<Rightarrow> url \<Rightarrow> page \<Rightarrow> page" where
  "pushState st u s =
     s\<lparr>hist_past := hist_current s # hist_past s,
       hist_current := \<lparr>entry_state = st, entry_url = u\<rparr>,
       hist_future := []\<rparr>"

text \<open>The overlay is marked visible: \<^verbatim>\<open>modal.getAttribute('aria-hidden') === 'false'\<close>.\<close>

definition overlay_visible :: "page \<Rightarrow> bool" where
  "overlay_visible s = (aria_hidden s = Some (str ''false''))"

definition history_size :: "page \<Rightarrow> nat" where
  "history_size s = length (hist_past s) + 1 + length (hist_future s)"

subsection \<open>Tool badges\<close>

text \<open>The own properties of the object literal \<^verbatim>\<open>toolConfig\<close>.\<close>

definition toolConfig :: "(js_string \<times> tool_descriptor) list" where
  "toolConfig =
     [(str ''ps'', \<lparr>class_name = str ''bubble-PS'', ariaLabel = str ''Photoshop'', label = str ''PS'', isImage = False\<rparr>),
      (str ''ai'', \<lparr>class_name = str ''bubble-AI'', ariaLabel = str ''Illustrator'', label = str ''AI'', isImage = False\<rparr>),
      (str ''blender'', \<lparr>class_name = str ''bubble-blender'', ariaLabel = str ''Blender'', label = [], isImage = True\<rparr>),
      (str ''figma'', \<lparr>class_name = str ''bubble-figma'', ariaLabel = str ''Figma'', label = [], isImage = True\<rparr>),
      (str ''pr'', \<lparr>class_name = str ''bubble-PR'', ariaLabel = str ''Premiere Pro'', label = str ''PR'', isImage = False\<rparr>)]"

text \<open>
  The value of \<^verbatim>\<open>toolConfig[normalizedKey]\<close>. \<^verbatim>\<open>toolConfig\<close> is an ordinary object, so
  a key that is not an own property is looked up on \<^verbatim>\<open>Object.prototype\<close>. The key has
  been lowercased, and the only properties of \<^verbatim>\<open>Object.prototype\<close> whose names have no
  capital letter are \<^verbatim>\<open>constructor\<close> (the function \<^verbatim>\<open>Object\<close>) and \<^verbatim>\<open>__proto__\<close>
  (an accessor that returns \<^verbatim>\<open>Object.prototype\<close>): both values are truthy objects
  with none of the properties \<^verbatim>\<open>class\<close>, \<^verbatim>\<open>ariaLabel\<close>, \<^verbatim>\<open>label\<close>, \<^verbatim>\<open>isImage\<close>.
\<close>

datatype config_value = Descriptor tool_descriptor | ObjectConstructor | ObjectPrototype

definition toolConfig_get :: "js_string \<Rightarrow> config_value option" where
  "toolConfig_get k =
     (case map_of toolConfig k of
        Some d \<Rightarrow> Some (Descriptor d)
      | None \<Rightarrow>
          if k = str ''constructor'' then Some ObjectConstructor
          else if k = str ''__proto__'' then Some ObjectPrototype
          else None)"

text \<open>
  The body of the \<^verbatim>\<open>forEach\<close> callback once \<^verbatim>\<open>config\<close> is truthy. Reading a property
  that the value does not have gives \<^verbatim>\<open>undefined\<close>: \<^verbatim>\<open>className\<close> and \<^verbatim>\<open>setAttribute\<close>
  turn it into the string \<^verbatim>\<open>undefined\<close>, \<^verbatim>\<open>isImage\<close> is falsy, and \<^verbatim>\<open>textContent\<close>
  (a nullable string) takes it as the empty string.
\<close>

fun make_bubble :: "config_value \<Rightarrow> bubble" where
  "make_bubble (Descriptor d) =
     \<lparr>className = class_name d, bubble_ariaLabel = ariaLabel d,
      labelSpan =
        (if isImage d
         then \<lparr>span_className = str ''bubble-text'', span_role = Some (str ''img''),
               span_ariaLabel = Some (ariaLabel d), textContent = []\<rparr>
         else \<lparr>span_className = str ''bubble-text'', span_role = None,
               span_ariaLabel = None, textContent = label d\<rparr>)\<rparr>"
| "make_bubble _ =
     \<lparr>className = str ''undefined'', bubble_ariaLabel = str ''undefined'',
      labelSpan = \<lparr>span_className = str ''bubble-text'', span_role = None,
                   span_ariaLabel = None, textContent = []\<rparr>\<rparr>"

text \<open>The \<^verbatim>\<open>forEach\<close> loop of \<^verbatim>\<open>renderBubbles\<close> over the children of the container.\<close>

fun render_each :: "js_string list \<Rightarrow> bubble list \<Rightarrow> bubble list" where
  "render_each [] children = children"
| "render_each (toolKey # rest) children =
     (let normalizedKey = trim (toLowerCase toolKey)
      in case toolConfig_get normalizedKey of
           None \<Rightarrow> render_each rest children
         | Some config \<Rightarrow> render_each rest (children @ [make_bubble config]))"

definition renderBubbles :: "js_string list \<Rightarrow> page \<Rightarrow> page" where
  "renderBubbles tools s =
     (case modalFlags s of
        None \<Rightarrow> s
      | Some _ \<Rightarrow> s\<lparr>modalFlags := Some (render_each tools [])\<rparr>)"

text \<open>
  A recognized tool key, in the words of the spec: the key, lowercased and trimmed, is
  a key of the descriptor table.
\<close>

definition recognized :: "js_string \<Rightarrow> bool" where
  "recognized toolKey = (map_of toolConfig (trim (toLowerCase toolKey)) \<noteq> None)"

subsection \<open>Opening and closing\<close>

definition placeholder :: "js_string \<Rightarrow> js_string" where
  "placeholder pid =
     (str ''https://picsum.photos/seed/'') @ encodeURIComponent (or_str pid (str ''long'')) @ (str ''/900/3000'')"

definition parse_tools :: "js_string \<Rightarrow> js_string list" where
  "parse_tools toolsAttr = filter (\<lambda>t. t \<noteq> []) (map trim (split (Latin1 CHR '','') toolsAttr))"

definition openFromCard :: "card \<Rightarrow> bool \<Rightarrow> page \<Rightarrow> page" where
  "openFromCard c pushHistory s =
     (let pid = or_attr (data_id c) [];
          title = or_attr (data_title c) (str ''Project'');
          img = or_attr (data_img c) (or_attr (nested_img_src c) []);
          toolsAttr = or_attr (data_tools c) [];
          s1 = s\<lparr>titleEl := map_option (\<lambda>_. title) (titleEl s)\<rparr>;
          s2 = s1\<lparr>imgEl :=
                 map_option (\<lambda>e. e\<lparr>src := or_str img (placeholder pid), alt := title\<rparr>) (imgEl s1)\<rparr>;
          s3 = renderBubbles (parse_tools toolsAttr) s2;
          s4 = s3\<lparr>aria_hidden := Some (str ''false''), body_overflow := str ''hidden'',
                 frame_focused := map_option (\<lambda>_. True) (frame_focused s3)\<rparr>
      in if pushHistory
         then pushState (Project pid)
                ((location s4)\<lparr>searchParams :=
                    sp_set (str ''project'') (or_str pid (str ''p'')) (searchParams (location s4))\<rparr>) s4
         else s4)"

definition closeModal :: "bool \<Rightarrow> page \<Rightarrow> page" where
  "closeModal fromHistory s =
     (let s1 = s\<lparr>aria_hidden := Some (str ''true''), body_overflow := []\<rparr>
      in if \<not> fromHistory
         then pushState Empty
                ((location s1)\<lparr>searchParams := sp_delete (str ''project'') (searchParams (location s1))\<rparr>) s1
         else s1)"

text \<open>
  \<^verbatim>\<open>document.querySelector('.card[data-id="' + CSS.escape(id) + '"]')\<close>: the first card
  of the document whose \<^verbatim>\<open>data-id\<close> attribute is exactly the value the selector asks
  for.
\<close>

definition query_card :: "card list \<Rightarrow> js_string \<Rightarrow> card option" where
  "query_card cards pid = find (\<lambda>c. data_id c = Some (CSS_escape_value pid)) cards"

definition openFromUrl :: "card list \<Rightarrow> bool \<Rightarrow> page \<Rightarrow> bool \<times> page" where
  "openFromUrl cards push s =
     (case sp_get (str ''project'') (searchParams (location s)) of
        None \<Rightarrow> (False, s)
      | Some pid \<Rightarrow>
          if pid = [] then (False, s)
          else (case query_card cards pid of
                  Some c \<Rightarrow> (True, openFromCard c push s)
                | None \<Rightarrow> (False, s)))"

text \<open>
  The \<^verbatim>\<open>DOMContentLoaded\<close> handler: nothing happens when the page has no element
  \<^verbatim>\<open>project-modal\<close>; otherwise the listeners are installed and \<^verbatim>\<open>openFromUrl(false)\<close>
  runs once.
\<close>

definition onDOMContentLoaded :: "card list \<Rightarrow> bool \<Rightarrow> page \<Rightarrow> page" where
  "onDOMContentLoaded cards modal_found s =
     (if \<not> modal_found then s else snd (openFromUrl cards False s))"

text \<open>The \<^verbatim>\<open>popstate\<close> listener.\<close>

definition onPopstate :: "card list \<Rightarrow> page \<Rightarrow> page" where
  "onPopstate cards s =
     (let has = sp_has (str ''project'') (searchParams (location s))
      in if \<not> has
         then (if aria_hidden s = Some (str ''false'') then closeModal True s else s)
         else snd (openFromUrl cards False s))"

text \<open>The \<^verbatim>\<open>keydown\<close> listener of the window, on the Escape key.\<close>

definition onEscape :: "page \<Rightarrow> page" where
  "onEscape s = (if aria_hidden s = Some (str ''false'') then closeModal False s else s)"

text \<open>
  The browser's part of a back navigation, which the script does not contain: the
  nearest entry behind becomes current, the entry left is the first one ahead, and
  \<^verbatim>\<open>popstate\<close> is then dispatched to the listener. With no entry behind nothing happens.
\<close>

definition history_back :: "card list \<Rightarrow> page \<Rightarrow> page" where
  "history_back cards s =
     (case hist_past s of
        [] \<Rightarrow> s
      | e # es \<Rightarrow>
          onPopstate cards
            (s\<lparr>hist_past := es, hist_current := e, hist_future := hist_current s # hist_future s\<rparr>))"

text \<open>A run of successive calls of \<^verbatim>\<open>openFromCard\<close>, each with its card and its flag.\<close>

fun open_sequence :: "(card \<times> bool) list \<Rightarrow> page \<Rightarrow> page" where
  "open_sequence [] s = s"
| "open_sequence (cp # rest) s = open_sequence rest (openFromCard (fst cp) (snd cp) s)"

subsection \<open>A sample page\<close>

text \<open>
  A page with a hidden overlay that has all its optional elements, a fresh session
  history, and cards to open: the theorems below are instantiated on them.
\<close>

definition page0 :: page where
  "page0 =
     \<lparr>aria_hidden = Some (str ''true''), body_overflow = [], titleEl = Some [],
      imgEl = Some \<lparr>src = [], alt = []\<rparr>, modalFlags = Some [], frame_focused = Some False,
      hist_past = [],
      hist_current = \<lparr>entry_state = Null,
         entry_url = \<lparr>url_path = str ''/index.html'', searchParams = [], url_hash = []\<rparr>\<rparr>,
      hist_future = []\<rparr>"

text \<open>The page as it is when loaded from a URL whose query is \<^verbatim>\<open>?project=v\<close>.\<close>

definition with_project :: "js_string \<Rightarrow> page \<Rightarrow> page" where
  "with_project v s =
     s\<lparr>hist_current := (hist_current s)\<lparr>entry_url :=
        (location s)\<lparr>searchParams := [(str ''project'', v)]\<rparr>\<rparr>\<rparr>"

definition cardA :: card where
  "cardA = \<lparr>data_id = Some (str ''alpha''), data_title = Some (str ''Alpha''), data_img = Some (str ''a.png''),
             data_tools = Some (str ''PS, Figma''), nested_img_src = None\<rparr>"

definition cardB :: card where
  "cardB = \<lparr>data_id = Some (str ''beta''), data_title = None, data_img = None,
             data_tools = Some (str ''blender,unknown''), nested_img_src = Some (str ''b.png'')\<rparr>"

definition cardE :: card where
  "cardE = \<lparr>data_id = Some [], data_title = Some (str ''Untitled''), data_img = None,
             data_tools = None, nested_img_src = None\<rparr>"

text \<open>
  A card whose \<^verbatim>\<open>data-id\<close> is the one character U+FFFD, as the HTML parser reads
  \<^verbatim>\<open>data-id="&#0;"\<close>, and the id of the one character U+0000, as \<^verbatim>\<open>URLSearchParams\<close>
  reads \<^verbatim>\<open>?project=%00\<close>.
\<close>

definition cardR :: card where
  "cardR = \<lparr>data_id = Some [Replacement], data_title = Some (str ''Rho''), data_img = None,
             data_tools = None, nested_img_src = None\<rparr>"

definition nul_id :: js_string where
  "nul_id = [Latin1 (CHR 0x00)]"

definition cardI :: card where
  "cardI = \<lparr>data_id = Some (str ''iota''), data_title = Some (str ''Iota''), data_img = Some [],
             data_tools = Some (str ''PS,constructor''), nested_img_src = Some (str ''thumb.png'')\<rparr>"

section \<open>Facts about the operations\<close>

subsection \<open>Strings\<close>

lemma str_eq_iff: "(str a = str b) = (a = b)"
  by (simp add: str_def inj_map_eq_map inj_on_def)

lemma str_Nil_iff: "(str a = []) = (a = [])"
  by (simp add: str_def)

text \<open>On an id without U+0000 the selector asks for the id itself.\<close>

lemma CSS_escape_value_id:
  assumes "Latin1 (CHR 0x00) \<notin> set x"
  shows "CSS_escape_value x = x"
  using assms by (induction x) (auto simp: CSS_escape_value_def)

lemma CSS_escape_value_Nil_iff: "(CSS_escape_value x = []) = (x = [])"
  by (simp add: CSS_escape_value_def)

lemma CSS_escape_value_p: "CSS_escape_value (str ''p'') = str ''p''"
  by code_simp

subsection \<open>Search parameters\<close>

lemma sp_get_set: "sp_get k (sp_set k v ps) = Some v"
  by (induction ps) (auto simp: sp_get_def)

lemma sp_has_set: "sp_has k (sp_set k v ps)"
  using sp_get_set [of k v ps] by (simp add: sp_has_def sp_get_def)

lemma sp_get_delete: "sp_get k (sp_delete k ps) = None"
  by (induction ps) (auto simp: sp_get_def sp_delete_def)

lemma sp_has_delete: "\<not> sp_has k (sp_delete k ps)"
  using sp_get_delete [of k ps] by (simp add: sp_has_def sp_get_def)

lemma sp_has_get: "sp_has k ps \<longleftrightarrow> sp_get k ps \<noteq> None"
  by (simp add: sp_has_def sp_get_def)

lemma or_str_nonempty: "b \<noteq> [] \<Longrightarrow> or_str a b \<noteq> []"
  by (simp add: or_str_def)

subsection \<open>The effect of one call\<close>

text \<open>What one call of \<^verbatim>\<open>openFromCard\<close> leaves in each part of the page.\<close>

lemma openFromCard_aria_hidden: "aria_hidden (openFromCard c p s) = Some (str ''false'')"
  by (simp add: openFromCard_def renderBubbles_def pushState_def Let_def split: option.splits)

lemma openFromCard_body_overflow: "body_overflow (openFromCard c p s) = str ''hidden''"
  by (simp add: openFromCard_def renderBubbles_def pushState_def Let_def split: option.splits)

lemma openFromCard_titleEl:
  "titleEl (openFromCard c p s) = map_option (\<lambda>_. or_attr (data_title c) (str ''Project'')) (titleEl s)"
  by (simp add: openFromCard_def renderBubbles_def pushState_def Let_def split: option.splits)

lemma openFromCard_imgEl:
  "imgEl (openFromCard c p s) =
     map_option
       (\<lambda>e. e\<lparr>src := or_str (or_attr (data_img c) (or_attr (nested_img_src c) []))
                        (placeholder (or_attr (data_id c) [])),
               alt := or_attr (data_title c) (str ''Project'')\<rparr>)
       (imgEl s)"
  by (simp add: openFromCard_def renderBubbles_def pushState_def Let_def split: option.splits)

lemma openFromCard_modalFlags:
  "modalFlags (openFromCard c p s) =
     map_option (\<lambda>_. render_each (parse_tools (or_attr (data_tools c) [])) []) (modalFlags s)"
  by (simp add: openFromCard_def renderBubbles_def pushState_def Let_def split: option.splits)

lemma openFromCard_frame_focused:
  "frame_focused (openFromCard c p s) = map_option (\<lambda>_. True) (frame_focused s)"
  by (simp add: openFromCard_def renderBubbles_def pushState_def Let_def split: option.splits)

lemma openFromCard_no_push_history:
  "hist_past (openFromCard c False s) = hist_past s"
  "hist_current (openFromCard c False s) = hist_current s"
  "hist_future (openFromCard c False s) = hist_future s"
  by (simp_all add: openFromCard_def renderBubbles_def Let_def split: option.splits)

lemma openFromCard_push_history:
  "hist_past (openFromCard c True s) = hist_current s # hist_past s"
  "hist_current (openFromCard c True s) =
     \<lparr>entry_state = Project (or_attr (data_id c) []),
      entry_url = (location s)\<lparr>searchParams :=
        sp_set (str ''project'') (or_str (or_attr (data_id c) []) (str ''p'')) (searchParams (location s))\<rparr>\<rparr>"
  "hist_future (openFromCard c True s) = []"
  by (simp_all add: openFromCard_def renderBubbles_def pushState_def location_def Let_def
      split: option.splits)

lemma closeModal_True:
  "closeModal True s = s\<lparr>aria_hidden := Some (str ''true''), body_overflow := []\<rparr>"
  by (simp add: closeModal_def)

lemma closeModal_False:
  "closeModal False s =
     s\<lparr>aria_hidden := Some (str ''true''), body_overflow := [],
       hist_past := hist_current s # hist_past s,
       hist_current := \<lparr>entry_state = Empty,
          entry_url = (location s)\<lparr>searchParams := sp_delete (str ''project'') (searchParams (location s))\<rparr>\<rparr>,
       hist_future := []\<rparr>"
  by (simp add: closeModal_def pushState_def location_def Let_def)

lemma location_openFromCard_push:
  "location (openFromCard c True s) =
     (location s)\<lparr>searchParams :=
        sp_set (str ''project'') (or_str (or_attr (data_id c) []) (str ''p'')) (searchParams (location s))\<rparr>"
  by (simp add: location_def openFromCard_push_history)

lemma location_openFromCard_no_push: "location (openFromCard c False s) = location s"
  by (simp add: location_def openFromCard_no_push_history)

lemma project_after_open:
  "sp_get (str ''project'') (searchParams (location (openFromCard c True s))) =
     Some (or_str (or_attr (data_id c) []) (str ''p''))"
  by (simp add: location_openFromCard_push sp_get_set)

lemma location_closeModal_False:
  "location (closeModal False s) =
     (location s)\<lparr>searchParams := sp_delete (str ''project'') (searchParams (location s))\<rparr>"
  by (simp add: closeModal_False location_def)

lemma closeModal_visual:
  "aria_hidden (closeModal b s) = Some (str ''true'')" "body_overflow (closeModal b s) = []"
  by (cases b; simp add: closeModal_True closeModal_False)+

lemma open_sequence_append:
  "open_sequence (xs @ ys) s = open_sequence ys (open_sequence xs s)"
  by (induction xs arbitrary: s) simp_all

lemma open_sequence_modalFlags_None:
  "(modalFlags (open_sequence ops s) = None) = (modalFlags s = None)"
  by (induction ops arbitrary: s) (simp_all add: openFromCard_modalFlags)

lemma renderBubbles_modalFlags:
  "modalFlags (renderBubbles tools s) = map_option (\<lambda>_. render_each tools []) (modalFlags s)"
  by (simp add: renderBubbles_def split: option.splits)

lemma query_card_Some:
  assumes "k \<in> set cards" and "data_id k = Some (CSS_escape_value x)"
  shows "\<exists>c. query_card cards x = Some c \<and> c \<in> set cards
           \<and> data_id c = Some (CSS_escape_value x)"
proof (cases "query_card cards x")
  case None
  with assms show ?thesis
    by (auto simp: query_card_def find_None_iff)
next
  case (Some c)
  then show ?thesis
    by (auto simp: query_card_def find_Some_iff)
qed

lemma query_card_unique:
  assumes "k \<in> set cards" and "data_id k = Some (CSS_escape_value x)"
    and "\<forall>k' \<in> set cards. data_id k' = Some (CSS_escape_value x) \<longrightarrow> k' = k"
  shows "query_card cards x = Some k"
  using query_card_Some [OF assms(1,2)] assms(3) by auto

lemma query_card_None:
  "(query_card cards x = None) = (\<forall>k \<in> set cards. data_id k \<noteq> Some (CSS_escape_value x))"
  by (auto simp: query_card_def find_None_iff)

lemma openFromUrl_location: "location (snd (openFromUrl cards False s)) = location s"
  by (simp add: openFromUrl_def location_openFromCard_no_push split: option.splits)

lemma openFromUrl_history:
  "hist_past (snd (openFromUrl cards False s)) = hist_past s"
  "hist_current (snd (openFromUrl cards False s)) = hist_current s"
  "hist_future (snd (openFromUrl cards False s)) = hist_future s"
  by (simp_all add: openFromUrl_def openFromCard_no_push_history split: option.splits)

lemma openFromUrl_visible:
  assumes "\<not> overlay_visible s"
  shows "overlay_visible (snd (openFromUrl cards push s)) =
           (\<exists>x. sp_get (str ''project'') (searchParams (location s)) = Some x \<and> x \<noteq> []
                \<and> (\<exists>k \<in> set cards. data_id k = Some (CSS_escape_value x)))"
proof (cases "sp_get (str ''project'') (searchParams (location s))")
  case None
  with assms show ?thesis by (simp add: openFromUrl_def)
next
  case (Some x)
  show ?thesis
  proof (cases "x = []")
    case True
    with Some assms show ?thesis by (simp add: openFromUrl_def)
  next
    case False
    show ?thesis
    proof (cases "query_card cards x")
      case None
      then have "\<forall>k \<in> set cards. data_id k \<noteq> Some (CSS_escape_value x)"
        by (simp add: query_card_None)
      with None Some False assms show ?thesis
        by (simp add: openFromUrl_def)
    next
      case (Some c)
      then have "\<exists>k \<in> set cards. data_id k = Some (CSS_escape_value x)"
        using query_card_None [of cards x] by auto
      with Some \<open>sp_get (str ''project'') (searchParams (location s)) = Some x\<close> False
      show ?thesis
        by (simp add: openFromUrl_def overlay_visible_def openFromCard_aria_hidden)
    qed
  qed
qed

lemma openFromCard_src:
  "map_option src (imgEl (openFromCard c p s)) =
     map_option
       (\<lambda>_. or_str (or_attr (data_img c) (or_attr (nested_img_src c) []))
              (placeholder (or_attr (data_id c) [])))
       (imgEl s)"
  by (simp add: openFromCard_imgEl option.map_comp comp_def)

text \<open>
  Away from the two names found on \<^verbatim>\<open>Object.prototype\<close>, the loop of \<^verbatim>\<open>renderBubbles\<close>
  appends one badge for each recognized key, in the order of the keys.
\<close>

lemma render_each_own_keys:
  assumes "\<forall>k \<in> set tools. trim (toLowerCase k) \<notin> {(str ''constructor''), (str ''__proto__'')}"
  shows "render_each tools children =
           children @ map (\<lambda>k. make_bubble (Descriptor (the (map_of toolConfig (trim (toLowerCase k))))))
                        (filter recognized tools)"
  using assms
proof (induction tools arbitrary: children)
  case Nil
  then show ?case by simp
next
  case (Cons k tools)
  then show ?case
    by (cases "map_of toolConfig (trim (toLowerCase k))")
      (simp_all add: toolConfig_get_def recognized_def)
qed

lemma onPopstate_history:
  "hist_past (onPopstate cards s) = hist_past s"
  "hist_current (onPopstate cards s) = hist_current s"
  "hist_future (onPopstate cards s) = hist_future s"
  by (simp_all add: onPopstate_def closeModal_True openFromUrl_history)

lemma history_back_Cons:
  assumes "hist_past s = e # es"
  shows "history_back cards s =
           onPopstate cards
             (s\<lparr>hist_past := es, hist_current := e, hist_future := hist_current s # hist_future s\<rparr>)"
  using assms by (simp add: history_back_def)

lemma history_back_size: "history_size (history_back cards s) = history_size s"
  by (cases "hist_past s") (simp_all add: history_back_def history_size_def onPopstate_history)

text \<open>A back navigation onto an entry without the parameter, from an open overlay.\<close>

lemma history_back_closes:
  assumes "hist_past s = e # es" and "\<not> sp_has (str ''project'') (searchParams (entry_url e))"
    and "aria_hidden s = Some (str ''false'')"
  shows "history_back cards s =
           s\<lparr>aria_hidden := Some (str ''true''), body_overflow := [],
             hist_past := es, hist_current := e, hist_future := hist_current s # hist_future s\<rparr>"
  using assms by (simp add: history_back_Cons onPopstate_def location_def closeModal_True)

text \<open>A back navigation onto an entry that names a card of the page.\<close>

lemma history_back_reopens:
  assumes "hist_past s = e # es" and "sp_get (str ''project'') (searchParams (entry_url e)) = Some x"
    and "x \<noteq> []" and "query_card cards x = Some c"
  shows "history_back cards s =
           openFromCard c False
             (s\<lparr>hist_past := es, hist_current := e, hist_future := hist_current s # hist_future s\<rparr>)"
  using assms
  by (simp add: history_back_Cons onPopstate_def location_def sp_has_def sp_get_def openFromUrl_def)

section \<open>The claims\<close>

subsection \<open>C1: the overlay and the project parameter after a transition\<close>

text \<open>
  C1, as amended. After \<^verbatim>\<open>openFromCard\<close> with \<^verbatim>\<open>pushHistory\<close> the overlay is marked visible
  and the URL has a \<^verbatim>\<open>project\<close> parameter; after \<^verbatim>\<open>closeModal\<close> without \<^verbatim>\<open>fromHistory\<close>
  the overlay is not marked visible and the URL has none. The load handler never
  changes the URL, and on a page whose overlay is not marked visible it marks the
  overlay visible exactly when the \<^verbatim>\<open>project\<close> parameter is present, is not empty and,
  read with U+FFFD in place of every U+0000 as \<^verbatim>\<open>CSS.escape\<close> writes it, is the
  \<^verbatim>\<open>data-id\<close> of some card: a parameter that names no card stays in the URL over a
  hidden overlay.
\<close>

theorem controller_transitions_consistent:
  "overlay_visible (openFromCard c True s)
   \<and> sp_has (str ''project'') (searchParams (location (openFromCard c True s)))
   \<and> \<not> overlay_visible (closeModal False s)
   \<and> \<not> sp_has (str ''project'') (searchParams (location (closeModal False s)))
   \<and> location (onDOMContentLoaded cards found s) = location s
   \<and> (\<not> overlay_visible s \<longrightarrow>
        overlay_visible (onDOMContentLoaded cards True s) =
          (\<exists>x. sp_get (str ''project'') (searchParams (location s)) = Some x \<and> x \<noteq> []
               \<and> (\<exists>k \<in> set cards. data_id k = Some (CSS_escape_value x))))"
  by (simp add: overlay_visible_def openFromCard_aria_hidden closeModal_visual str_eq_iff
      location_openFromCard_push sp_has_set location_closeModal_False sp_has_delete
      onDOMContentLoaded_def openFromUrl_location
      openFromUrl_visible [unfolded overlay_visible_def])

theorem controller_transitions_consistent_witness:
  "\<not> overlay_visible (with_project (str ''beta'') page0)
   \<and> overlay_visible (onDOMContentLoaded [cardA, cardB] True (with_project (str ''beta'') page0))
   \<and> sp_has (str ''project'')
        (searchParams (location (onDOMContentLoaded [cardA, cardB] True (with_project (str ''beta'') page0))))"
proof -
  let ?s = "with_project (str ''beta'') page0"
  have h: "\<not> overlay_visible ?s"
    by (simp add: overlay_visible_def with_project_def page0_def str_eq_iff)
  have g: "sp_get (str ''project'') (searchParams (location ?s)) = Some (str ''beta'')"
    by (simp add: sp_get_def location_def with_project_def page0_def)
  have e: "CSS_escape_value (str ''beta'') = str ''beta''"
    by code_simp
  have k: "cardB \<in> set [cardA, cardB] \<and> data_id cardB = Some (CSS_escape_value (str ''beta''))"
    by (simp add: cardB_def e)
  have n: "str ''beta'' \<noteq> []"
    by (simp add: str_Nil_iff)
  have "\<exists>x. sp_get (str ''project'') (searchParams (location ?s)) = Some x \<and> x \<noteq> []
          \<and> (\<exists>k \<in> set [cardA, cardB]. data_id k = Some (CSS_escape_value x))"
    using g k n by blast
  with controller_transitions_consistent [of cardA ?s "[cardA, cardB]" True] h g
  show ?thesis by (simp add: sp_has_def sp_get_def)
qed

text \<open>
  C1 as stated fails at load: with \<^verbatim>\<open>?project=gamma\<close> and no card of that id, the
  parameter is present and the overlay is not marked visible.
\<close>

theorem load_unmatched_project_counterexample:
  "sp_has (str ''project'')
     (searchParams (location (onDOMContentLoaded [cardA, cardB] True (with_project (str ''gamma'') page0))))
   \<and> \<not> overlay_visible (onDOMContentLoaded [cardA, cardB] True (with_project (str ''gamma'') page0))"
  by code_simp

subsection \<open>C2: the popstate listener replays the URL\<close>

text \<open>
  C2, as amended. The \<^verbatim>\<open>popstate\<close> listener never changes the session history. On a URL
  without the \<^verbatim>\<open>project\<close> parameter and an open modal it is \<^verbatim>\<open>closeModal(true)\<close>; on a
  URL with the parameter it is \<^verbatim>\<open>openFromUrl(false)\<close>. After opening card \<open>a\<close>, closing,
  and opening card \<open>b\<close>, one back navigation reopens nothing: it brings back the closed
  state that the close had left (its history entry, a hidden overlay, the scroll of
  the page restored) with as many history entries as before. A second back navigation
  reopens \<open>a\<close> with the title, image and badges it had, again with no entry added,
  provided the id of \<open>a\<close> is not empty and the query for that id selects \<open>a\<close>.
\<close>

theorem popstate_replays_url:
  "hist_past (onPopstate cards s) = hist_past s
   \<and> hist_current (onPopstate cards s) = hist_current s
   \<and> hist_future (onPopstate cards s) = hist_future s
   \<and> (\<not> sp_has (str ''project'') (searchParams (location s)) \<and> overlay_visible s \<longrightarrow>
        onPopstate cards s = closeModal True s)
   \<and> (sp_has (str ''project'') (searchParams (location s)) \<longrightarrow>
        onPopstate cards s = snd (openFromUrl cards False s))
   \<and> (let s1 = openFromCard a True s; s2 = closeModal False s1; s3 = openFromCard b True s2;
           s4 = history_back cards s3; s5 = history_back cards s4
       in history_size s4 = history_size s3
          \<and> hist_past s4 = hist_past s2 \<and> hist_current s4 = hist_current s2
          \<and> hist_future s4 = [hist_current s3]
          \<and> aria_hidden s4 = aria_hidden s2 \<and> body_overflow s4 = body_overflow s2
          \<and> \<not> overlay_visible s4
          \<and> (data_id a = Some x \<and> x \<noteq> [] \<and> query_card cards x = Some a \<longrightarrow>
               history_size s5 = history_size s3
               \<and> hist_past s5 = hist_past s1 \<and> hist_current s5 = hist_current s1
               \<and> hist_future s5 = [hist_current s2, hist_current s3]
               \<and> overlay_visible s5 \<and> body_overflow s5 = body_overflow s1
               \<and> titleEl s5 = titleEl s1 \<and> imgEl s5 = imgEl s1 \<and> modalFlags s5 = modalFlags s1))"
proof -
  define s1 where "s1 = openFromCard a True s"
  define s2 where "s2 = closeModal False s1"
  define s3 where "s3 = openFromCard b True s2"
  define s4 where "s4 = history_back cards s3"
  define s5 where "s5 = history_back cards s4"
  have p3: "hist_past s3 = hist_current s2 # hist_past s2"
    by (simp add: s3_def openFromCard_push_history)
  have n2: "\<not> sp_has (str ''project'') (searchParams (entry_url (hist_current s2)))"
    using sp_has_delete [of "(str ''project'')"] location_closeModal_False [of s1]
    by (simp add: s2_def location_def)
  have v3: "aria_hidden s3 = Some (str ''false'')"
    by (simp add: s3_def openFromCard_aria_hidden)
  have f3: "hist_future s3 = []"
    by (simp add: s3_def openFromCard_push_history)
  have s4_eq: "s4 = s3\<lparr>aria_hidden := Some (str ''true''), body_overflow := [],
      hist_past := hist_past s2, hist_current := hist_current s2, hist_future := [hist_current s3]\<rparr>"
    using history_back_closes [OF p3 n2 v3, of cards] by (simp add: s4_def f3)
  have size4: "history_size s4 = history_size s3"
    by (simp add: s4_def history_back_size)
  have vis2: "aria_hidden s2 = Some (str ''true'')" "body_overflow s2 = []"
    by (simp_all add: s2_def closeModal_visual)
  have first: "hist_past s4 = hist_past s2 \<and> hist_current s4 = hist_current s2
      \<and> hist_future s4 = [hist_current s3]
      \<and> aria_hidden s4 = aria_hidden s2 \<and> body_overflow s4 = body_overflow s2
      \<and> \<not> overlay_visible s4"
    by (simp add: s4_eq vis2 overlay_visible_def str_eq_iff)
  have second: "history_size s5 = history_size s3
      \<and> hist_past s5 = hist_past s1 \<and> hist_current s5 = hist_current s1
      \<and> hist_future s5 = [hist_current s2, hist_current s3]
      \<and> overlay_visible s5 \<and> body_overflow s5 = body_overflow s1
      \<and> titleEl s5 = titleEl s1 \<and> imgEl s5 = imgEl s1 \<and> modalFlags s5 = modalFlags s1"
    if a: "data_id a = Some x" "x \<noteq> []" "query_card cards x = Some a"
  proof -
    have p4: "hist_past s4 = hist_current s1 # hist_past s1"
      by (simp add: s4_eq s2_def closeModal_False)
    have g1: "sp_get (str ''project'') (searchParams (entry_url (hist_current s1))) = Some x"
      using project_after_open [of a s] a(1,2)
      by (simp add: s1_def location_def or_attr_def or_str_def)
    have s5_eq: "s5 = openFromCard a False
        (s4\<lparr>hist_past := hist_past s1, hist_current := hist_current s1,
            hist_future := [hist_current s2, hist_current s3]\<rparr>)"
      using history_back_reopens [OF p4 g1 a(2,3)] by (simp add: s5_def s4_eq)
    have t: "titleEl s5 = titleEl s1"
      by (cases "titleEl s")
        (simp_all add: s5_eq s4_eq s3_def s2_def s1_def openFromCard_titleEl closeModal_False)
    have i: "imgEl s5 = imgEl s1"
      by (cases "imgEl s")
        (simp_all add: s5_eq s4_eq s3_def s2_def s1_def openFromCard_imgEl closeModal_False)
    have m: "modalFlags s5 = modalFlags s1"
      by (cases "modalFlags s")
        (simp_all add: s5_eq s4_eq s3_def s2_def s1_def openFromCard_modalFlags closeModal_False)
    have h: "hist_past s5 = hist_past s1 \<and> hist_current s5 = hist_current s1
        \<and> hist_future s5 = [hist_current s2, hist_current s3]"
      by (simp add: s5_eq openFromCard_no_push_history)
    have o: "overlay_visible s5 \<and> body_overflow s5 = body_overflow s1"
      by (simp add: s5_eq s1_def overlay_visible_def openFromCard_aria_hidden
          openFromCard_body_overflow)
    have z: "history_size s5 = history_size s3"
      by (simp add: s5_def s4_def history_back_size)
    from t i m h o z show ?thesis by simp
  qed
  have handler: "hist_past (onPopstate cards s) = hist_past s
     \<and> hist_current (onPopstate cards s) = hist_current s
     \<and> hist_future (onPopstate cards s) = hist_future s
     \<and> (\<not> sp_has (str ''project'') (searchParams (location s)) \<and> overlay_visible s \<longrightarrow>
          onPopstate cards s = closeModal True s)
     \<and> (sp_has (str ''project'') (searchParams (location s)) \<longrightarrow>
          onPopstate cards s = snd (openFromUrl cards False s))"
    by (simp add: onPopstate_history) (simp add: onPopstate_def overlay_visible_def)
  from handler size4 first second show ?thesis
    unfolding Let_def s1_def [symmetric] s2_def [symmetric] s3_def [symmetric]
      s4_def [symmetric] s5_def [symmetric]
    by blast
qed

theorem popstate_replays_url_witness:
  "data_id cardA = Some (str ''alpha'') \<and> query_card [cardA, cardB] (str ''alpha'') = Some cardA
   \<and> \<not> overlay_visible
        (history_back [cardA, cardB]
          (openFromCard cardB True (closeModal False (openFromCard cardA True page0))))
   \<and> overlay_visible
        (history_back [cardA, cardB] (history_back [cardA, cardB]
          (openFromCard cardB True (closeModal False (openFromCard cardA True page0)))))
   \<and> titleEl
        (history_back [cardA, cardB] (history_back [cardA, cardB]
          (openFromCard cardB True (closeModal False (openFromCard cardA True page0)))))
       = Some (str ''Alpha'')"
proof -
  have a: "data_id cardA = Some (str ''alpha'') \<and> (str ''alpha'') \<noteq> []
      \<and> query_card [cardA, cardB] (str ''alpha'') = Some cardA"
    by code_simp
  have t: "titleEl (openFromCard cardA True page0) = Some (str ''Alpha'')"
    by (simp add: openFromCard_titleEl page0_def cardA_def or_attr_def or_str_def str_Nil_iff)
  from popstate_replays_url [of "[cardA, cardB]" page0 cardA cardB "(str ''alpha'')"] a t
  show ?thesis
    unfolding Let_def by metis
qed

text \<open>
  C2 as stated fails in its last part: after opening \<^verbatim>\<open>alpha\<close>, closing and opening
  \<^verbatim>\<open>beta\<close>, the back navigation leaves the overlay hidden on a URL without the
  parameter; no project is reopened.
\<close>

theorem back_after_reopen_counterexample:
  "\<not> overlay_visible
       (history_back [cardA, cardB]
         (openFromCard cardB True (closeModal False (openFromCard cardA True page0))))
   \<and> \<not> sp_has (str ''project'')
         (searchParams (location
           (history_back [cardA, cardB]
             (openFromCard cardB True (closeModal False (openFromCard cardA True page0))))))"
  by code_simp

subsection \<open>C3: a direct open or close pushes one entry\<close>

text \<open>
  C3. \<^verbatim>\<open>openFromCard\<close> with \<^verbatim>\<open>pushHistory\<close> and \<^verbatim>\<open>closeModal\<close> without \<^verbatim>\<open>fromHistory\<close> each push
  one entry: the entry that was current is kept as the nearest one behind, it is not
  replaced. The entry pushed by an open has the payload \<^verbatim>\<open>{ project: id }\<close> and a URL whose
  \<^verbatim>\<open>project\<close> parameter is the id, or \<^verbatim>\<open>p\<close> for an empty id. Opening card \<open>a\<close> and
  then card \<open>b\<close> puts exactly two more entries behind the current one, and the
  \<^verbatim>\<open>project\<close> parameter is then the id of \<open>b\<close>.
\<close>

theorem direct_transitions_push_one_entry:
  "hist_past (openFromCard c True s) = hist_current s # hist_past s
   \<and> entry_state (hist_current (openFromCard c True s)) = Project (or_attr (data_id c) [])
   \<and> sp_get (str ''project'') (searchParams (location (openFromCard c True s)))
        = Some (if or_attr (data_id c) [] = [] then (str ''p'') else or_attr (data_id c) [])
   \<and> hist_past (closeModal False s) = hist_current s # hist_past s
   \<and> hist_past (openFromCard b True (openFromCard a True s))
        = hist_current (openFromCard a True s) # hist_current s # hist_past s
   \<and> length (hist_past (openFromCard b True (openFromCard a True s))) = length (hist_past s) + 2
   \<and> (data_id b = Some idb \<and> idb \<noteq> [] \<longrightarrow>
        sp_get (str ''project'') (searchParams (location (openFromCard b True (openFromCard a True s))))
          = Some idb)"
  by (simp add: openFromCard_push_history project_after_open closeModal_False or_str_def or_attr_def)

theorem direct_transitions_push_one_entry_witness:
  "length (hist_past (openFromCard cardB True (openFromCard cardA True page0))) = 2
   \<and> sp_get (str ''project'') (searchParams (location (openFromCard cardB True (openFromCard cardA True page0))))
        = Some (str ''beta'')"
proof -
  have i: "data_id cardB = Some (str ''beta'') \<and> (str ''beta'') \<noteq> []"
    by (simp add: cardB_def str_Nil_iff)
  have p: "hist_past page0 = []"
    by (simp add: page0_def)
  from direct_transitions_push_one_entry [of cardA page0 cardB cardA "(str ''beta'')"] i p
  show ?thesis by simp
qed

subsection \<open>C4: loading a URL that names a card\<close>

text \<open>
  C4, as amended. When the page is loaded with a non-empty \<^verbatim>\<open>project\<close> parameter \<open>x\<close>
  and some card has for \<^verbatim>\<open>data-id\<close> the value the selector asks for (\<open>x\<close> with U+FFFD in
  place of every U+0000, so \<open>x\<close> itself when it has no U+0000), the load handler opens
  the first such card (the card itself when no other has that id) without pushing:
  the overlay is marked visible, the title, the image and the badge container, where
  the overlay has them, hold the data of that card, and the three parts of the
  session history are what they were.
\<close>

theorem load_opens_matching_card:
  assumes "sp_get (str ''project'') (searchParams (location s)) = Some x" and "x \<noteq> []"
    and "k \<in> set cards" and "data_id k = Some (CSS_escape_value x)"
  shows "\<exists>c. query_card cards x = Some c \<and> c \<in> set cards
           \<and> data_id c = Some (CSS_escape_value x)
           \<and> (Latin1 (CHR 0x00) \<notin> set x \<longrightarrow> data_id c = Some x)
           \<and> ((\<forall>k' \<in> set cards. data_id k' = Some (CSS_escape_value x) \<longrightarrow> k' = k) \<longrightarrow> c = k)
           \<and> onDOMContentLoaded cards True s = openFromCard c False s
           \<and> overlay_visible (onDOMContentLoaded cards True s)
           \<and> titleEl (onDOMContentLoaded cards True s)
                = map_option (\<lambda>_. or_attr (data_title c) (str ''Project'')) (titleEl s)
           \<and> imgEl (onDOMContentLoaded cards True s)
                = map_option
                    (\<lambda>e. e\<lparr>src := or_str (or_attr (data_img c) (or_attr (nested_img_src c) []))
                                     (placeholder (CSS_escape_value x)),
                            alt := or_attr (data_title c) (str ''Project'')\<rparr>)
                    (imgEl s)
           \<and> modalFlags (onDOMContentLoaded cards True s)
                = map_option (\<lambda>_. render_each (parse_tools (or_attr (data_tools c) [])) [])
                    (modalFlags s)
           \<and> hist_past (onDOMContentLoaded cards True s) = hist_past s
           \<and> hist_current (onDOMContentLoaded cards True s) = hist_current s
           \<and> hist_future (onDOMContentLoaded cards True s) = hist_future s"
proof -
  from query_card_Some [OF assms(3,4)] obtain c
    where c: "query_card cards x = Some c" "c \<in> set cards"
      "data_id c = Some (CSS_escape_value x)"
    by blast
  have plain: "data_id c = Some x" if "Latin1 (CHR 0x00) \<notin> set x"
    using that c(3) by (simp add: CSS_escape_value_id)
  have u: "c = k"
    if "\<forall>k' \<in> set cards. data_id k' = Some (CSS_escape_value x) \<longrightarrow> k' = k"
    using that c by blast
  have run: "onDOMContentLoaded cards True s = openFromCard c False s"
    using assms(1,2) c(1) by (simp add: onDOMContentLoaded_def openFromUrl_def)
  have pid: "or_attr (data_id c) [] = CSS_escape_value x"
    using c(3) assms(2) by (simp add: or_attr_def or_str_def CSS_escape_value_Nil_iff)
  have img: "imgEl (openFromCard c False s)
                = map_option
                    (\<lambda>e. e\<lparr>src := or_str (or_attr (data_img c) (or_attr (nested_img_src c) []))
                                     (placeholder (CSS_escape_value x)),
                            alt := or_attr (data_title c) (str ''Project'')\<rparr>)
                    (imgEl s)"
    by (simp only: openFromCard_imgEl pid)
  have vis: "overlay_visible (openFromCard c False s)"
    by (simp add: overlay_visible_def openFromCard_aria_hidden)
  show ?thesis
    using c plain u vis
    by (intro exI [of _ c])
      (simp add: run openFromCard_titleEl img openFromCard_modalFlags
        openFromCard_no_push_history)
qed

theorem load_opens_matching_card_witness:
  "onDOMContentLoaded [cardA, cardB] True (with_project (str ''beta'') page0)
     = openFromCard cardB False (with_project (str ''beta'') page0)
   \<and> overlay_visible (onDOMContentLoaded [cardA, cardB] True (with_project (str ''beta'') page0))
   \<and> hist_past (onDOMContentLoaded [cardA, cardB] True (with_project (str ''beta'') page0)) = []"
proof -
  let ?s = "with_project (str ''beta'') page0"
  have g: "sp_get (str ''project'') (searchParams (location ?s)) = Some (str ''beta'')"
    by (simp add: sp_get_def location_def with_project_def page0_def)
  have ne: "str ''beta'' \<noteq> []"
    by (simp add: str_Nil_iff)
  have e: "CSS_escape_value (str ''beta'') = str ''beta''"
    by code_simp
  have m: "cardB \<in> set [cardA, cardB]"
    by simp
  have d: "data_id cardB = Some (CSS_escape_value (str ''beta''))"
    by (simp add: cardB_def e)
  have q: "\<forall>k' \<in> set [cardA, cardB].
      data_id k' = Some (CSS_escape_value (str ''beta'')) \<longrightarrow> k' = cardB"
    by (simp add: cardA_def cardB_def e str_eq_iff)
  have p: "hist_past ?s = []"
    by (simp add: with_project_def page0_def)
  from load_opens_matching_card [OF g ne m d] q p
  show ?thesis by auto
qed

text \<open>
  C4 as stated fails for the empty id: with \<^verbatim>\<open>?project=\<close> and a card whose \<^verbatim>\<open>data-id\<close>
  is empty, the parameter equals the attribute and the overlay stays hidden.
\<close>

theorem load_empty_project_counterexample:
  "sp_get (str ''project'') (searchParams (location (with_project [] page0))) = Some []
   \<and> cardE \<in> set [cardA, cardE] \<and> data_id cardE = Some []
   \<and> \<not> overlay_visible (onDOMContentLoaded [cardA, cardE] True (with_project [] page0))"
  by code_simp

subsection \<open>C5: a project parameter that names no card\<close>

text \<open>
  C5, as amended. When the \<^verbatim>\<open>project\<close> parameter of the URL is \<open>y\<close> and no card has
  for \<^verbatim>\<open>data-id\<close> the value the selector asks for (\<open>y\<close> with U+FFFD in place of every
  U+0000, so \<open>y\<close> itself when it has no U+0000), \<^verbatim>\<open>openFromUrl\<close> returns false and
  leaves the whole page state as it was, so an overlay that was hidden stays hidden;
  the model has no error branch to take. The load handler therefore changes nothing
  either.
\<close>

theorem openFromUrl_no_match:
  assumes "sp_get (str ''project'') (searchParams (location s)) = Some y"
    and "\<forall>c \<in> set cards. data_id c \<noteq> Some (CSS_escape_value y)"
  shows "openFromUrl cards push s = (False, s)
         \<and> onDOMContentLoaded cards found s = s
         \<and> overlay_visible (snd (openFromUrl cards push s)) = overlay_visible s
         \<and> (Latin1 (CHR 0x00) \<notin> set y \<longrightarrow> CSS_escape_value y = y)"
proof -
  have "query_card cards y = None"
    using assms(2) by (simp add: query_card_None)
  then have "openFromUrl cards push s = (False, s)" for push
    using assms(1) by (simp add: openFromUrl_def)
  then show ?thesis
    by (simp add: onDOMContentLoaded_def CSS_escape_value_id)
qed

theorem openFromUrl_no_match_witness:
  "openFromUrl [cardA, cardB] False (with_project (str ''gamma'') page0)
     = (False, with_project (str ''gamma'') page0)
   \<and> \<not> overlay_visible (snd (openFromUrl [cardA, cardB] False (with_project (str ''gamma'') page0)))
   \<and> CSS_escape_value (str ''gamma'') = str ''gamma''"
proof -
  have g: "sp_get (str ''project'') (searchParams (location (with_project (str ''gamma'') page0)))
             = Some (str ''gamma'')"
    by (simp add: sp_get_def location_def with_project_def page0_def)
  have z: "Latin1 (CHR 0x00) \<notin> set (str ''gamma'')"
    by code_simp
  have e: "CSS_escape_value (str ''gamma'') = str ''gamma''"
    by code_simp
  have n: "\<forall>c \<in> set [cardA, cardB]. data_id c \<noteq> Some (CSS_escape_value (str ''gamma''))"
    by (simp add: cardA_def cardB_def e str_eq_iff)
  have v: "\<not> overlay_visible (with_project (str ''gamma'') page0)"
    by (simp add: overlay_visible_def with_project_def page0_def str_eq_iff)
  from openFromUrl_no_match [OF g n, of False True] z v show ?thesis by simp
qed

text \<open>
  C5 as stated fails at \<^verbatim>\<open>?project=%00\<close>: no card has the \<^verbatim>\<open>data-id\<close> U+0000, and
  \<^verbatim>\<open>openFromUrl\<close> returns true and opens the card whose \<^verbatim>\<open>data-id\<close> is U+FFFD.
\<close>

theorem nul_project_counterexample:
  "sp_get (str ''project'') (searchParams (location (with_project nul_id page0))) = Some nul_id
   \<and> data_id cardA \<noteq> Some nul_id \<and> data_id cardR \<noteq> Some nul_id
   \<and> fst (openFromUrl [cardA, cardR] False (with_project nul_id page0))
   \<and> overlay_visible (snd (openFromUrl [cardA, cardR] False (with_project nul_id page0)))
   \<and> titleEl (snd (openFromUrl [cardA, cardR] False (with_project nul_id page0)))
        = Some (str ''Rho'')"
  by code_simp

subsection \<open>C6: closing from history and closing directly\<close>

text \<open>
  C6. \<^verbatim>\<open>closeModal(true)\<close> only marks the overlay hidden and restores the scroll of the
  page: the three parts of the session history, and with them the URL, are what
  they were. \<^verbatim>\<open>closeModal(false)\<close> does the same and then pushes one entry whose URL
  has no \<^verbatim>\<open>project\<close> parameter. Opening a card and closing it directly leaves the
  parameter absent and the overlay hidden; so does closing it by a back navigation
  to a URL without the parameter, which is the only way the script calls
  \<^verbatim>\<open>closeModal(true)\<close>.
\<close>

theorem closeModal_history_effects:
  "closeModal True s = s\<lparr>aria_hidden := Some (str ''true''), body_overflow := []\<rparr>
   \<and> hist_past (closeModal True s) = hist_past s
   \<and> hist_current (closeModal True s) = hist_current s
   \<and> hist_future (closeModal True s) = hist_future s
   \<and> closeModal False s =
        pushState Empty
          ((location s)\<lparr>searchParams := sp_delete (str ''project'') (searchParams (location s))\<rparr>)
          (closeModal True s)
   \<and> hist_past (closeModal False s) = hist_current s # hist_past s
   \<and> \<not> sp_has (str ''project'') (searchParams (location (closeModal False s)))
   \<and> aria_hidden (closeModal fromHistory s) = Some (str ''true'')
   \<and> body_overflow (closeModal fromHistory s) = []
   \<and> \<not> sp_has (str ''project'') (searchParams (location (closeModal False (openFromCard c p s))))
   \<and> aria_hidden (closeModal False (openFromCard c p s)) = Some (str ''true'')
   \<and> (\<not> sp_has (str ''project'') (searchParams (location s)) \<longrightarrow>
        history_back cards (openFromCard c True s) = closeModal True
          ((openFromCard c True s)\<lparr>hist_past := hist_past s, hist_current := hist_current s,
             hist_future := [hist_current (openFromCard c True s)]\<rparr>)
        \<and> \<not> sp_has (str ''project'') (searchParams (location (history_back cards (openFromCard c True s))))
        \<and> aria_hidden (history_back cards (openFromCard c True s)) = Some (str ''true''))"
proof -
  have nav: "history_back cards (openFromCard c True s) = closeModal True
          ((openFromCard c True s)\<lparr>hist_past := hist_past s, hist_current := hist_current s,
             hist_future := [hist_current (openFromCard c True s)]\<rparr>)"
    if "\<not> sp_has (str ''project'') (searchParams (location s))"
    using that
    by (simp add: history_back_def openFromCard_push_history onPopstate_def location_def
        openFromCard_aria_hidden)
  have fin: "\<not> sp_has (str ''project'') (searchParams (location (history_back cards (openFromCard c True s))))
        \<and> aria_hidden (history_back cards (openFromCard c True s)) = Some (str ''true'')"
    if "\<not> sp_has (str ''project'') (searchParams (location s))"
    using that by (simp add: nav closeModal_True location_def)
  show ?thesis
    using nav fin
    by (simp add: closeModal_visual location_closeModal_False sp_has_delete)
      (simp add: closeModal_def pushState_def location_def)
qed

theorem closeModal_history_effects_witness:
  "\<not> sp_has (str ''project'') (searchParams (location page0))
   \<and> \<not> sp_has (str ''project'') (searchParams (location (history_back [cardA] (openFromCard cardA True page0))))
   \<and> aria_hidden (history_back [cardA] (openFromCard cardA True page0)) = Some (str ''true'')"
proof -
  have h: "\<not> sp_has (str ''project'') (searchParams (location page0))"
    by (simp add: sp_has_def location_def page0_def)
  from closeModal_history_effects [of page0 True cardA True "[cardA]"] h
  show ?thesis by blast
qed

subsection \<open>C7: one badge for each recognized key\<close>

text \<open>
  C7. The claim fails on the code at the tool list \<^verbatim>\<open>PS,constructor\<close>: the list has one
  recognized key, and opening the card renders two badges, the second one from the
  value that the lookup of \<^verbatim>\<open>constructor\<close> finds on \<^verbatim>\<open>Object.prototype\<close>, with the class
  and the label \<^verbatim>\<open>undefined\<close>. The check \<^verbatim>\<open>if (!config) return\<close>, commented as skipping
  unknown tools, does not skip it.
\<close>

theorem inherited_key_renders_badge:
  "data_tools cardI = Some (str ''PS,constructor'')
   \<and> parse_tools (str ''PS,constructor'') = [(str ''PS''), (str ''constructor'')]
   \<and> filter recognized (parse_tools (str ''PS,constructor'')) = [(str ''PS'')]
   \<and> modalFlags (openFromCard cardI True page0) =
        Some [\<lparr>className = str ''bubble-PS'', bubble_ariaLabel = str ''Photoshop'',
               labelSpan = \<lparr>span_className = str ''bubble-text'', span_role = None,
                            span_ariaLabel = None, textContent = str ''PS''\<rparr>\<rparr>,
              \<lparr>className = str ''undefined'', bubble_ariaLabel = str ''undefined'',
               labelSpan = \<lparr>span_className = str ''bubble-text'', span_role = None,
                            span_ariaLabel = None, textContent = []\<rparr>\<rparr>]"
  by code_simp

subsection \<open>C8: which image is displayed\<close>

text \<open>
  C8, as amended. When the overlay has an image element, \<^verbatim>\<open>openFromCard\<close> sets its source
  to the \<^verbatim>\<open>data-img\<close> attribute of the card if that is present and not empty; otherwise
  to the source of the nested image if there is one and it is not empty; otherwise to
  the placeholder URL built from the encoded id of the card, with the key \<^verbatim>\<open>long\<close> for
  an empty id.
\<close>

theorem image_priority:
  "(data_img c = Some v \<and> v \<noteq> [] \<longrightarrow>
      map_option src (imgEl (openFromCard c p s)) = map_option (\<lambda>_. v) (imgEl s))
   \<and> ((data_img c = None \<or> data_img c = Some []) \<and> nested_img_src c = Some w \<and> w \<noteq> [] \<longrightarrow>
      map_option src (imgEl (openFromCard c p s)) = map_option (\<lambda>_. w) (imgEl s))
   \<and> ((data_img c = None \<or> data_img c = Some [])
        \<and> (nested_img_src c = None \<or> nested_img_src c = Some []) \<longrightarrow>
      map_option src (imgEl (openFromCard c p s)) =
        map_option
          (\<lambda>_. (str ''https://picsum.photos/seed/'')
                @ encodeURIComponent
                    (if or_attr (data_id c) [] = [] then (str ''long'') else or_attr (data_id c) [])
                @ (str ''/900/3000''))
          (imgEl s))"
  by (auto simp: openFromCard_src or_attr_def or_str_def placeholder_def)

theorem image_priority_witness:
  "map_option src (imgEl (openFromCard cardA True page0)) = Some (str ''a.png'')
   \<and> map_option src (imgEl (openFromCard cardB True page0)) = Some (str ''b.png'')
   \<and> map_option src (imgEl (openFromCard cardE True page0))
        = Some (str ''https://picsum.photos/seed/long/900/3000'')"
proof -
  have a: "data_img cardA = Some (str ''a.png'') \<and> (str ''a.png'') \<noteq> []"
    by (simp add: cardA_def str_Nil_iff)
  have b: "(data_img cardB = None \<or> data_img cardB = Some [])
      \<and> nested_img_src cardB = Some (str ''b.png'') \<and> (str ''b.png'') \<noteq> []"
    by (simp add: cardB_def str_Nil_iff)
  have e: "(data_img cardE = None \<or> data_img cardE = Some [])
      \<and> (nested_img_src cardE = None \<or> nested_img_src cardE = Some [])
      \<and> or_attr (data_id cardE) [] = []"
    by (simp add: cardE_def or_attr_def or_str_def)
  have l: "encodeURIComponent (str ''long'') = str ''long''"
    by code_simp
  have j: "str ''https://picsum.photos/seed/'' @ str ''long'' @ str ''/900/3000''
             = str ''https://picsum.photos/seed/long/900/3000''"
    by (simp add: str_def)
  have i: "imgEl page0 = Some \<lparr>src = [], alt = []\<rparr>"
    by (simp add: page0_def)
  from image_priority [of cardA "(str ''a.png'')" True page0 "(str ''x'')"] a i
  have 1: "map_option src (imgEl (openFromCard cardA True page0)) = Some (str ''a.png'')"
    by simp
  from image_priority [of cardB "(str ''x'')" True page0 "(str ''b.png'')"] b i
  have 2: "map_option src (imgEl (openFromCard cardB True page0)) = Some (str ''b.png'')"
    by simp
  from image_priority [of cardE "(str ''x'')" True page0 "(str ''y'')"] e i l j
  have 3: "map_option src (imgEl (openFromCard cardE True page0))
        = Some (str ''https://picsum.photos/seed/long/900/3000'')"
    by simp
  from 1 2 3 show ?thesis by simp
qed

text \<open>
  C8 as stated fails for a \<^verbatim>\<open>data-img\<close> attribute that is present and empty: the
  image displayed is the nested image, not the attribute.
\<close>

theorem empty_data_img_counterexample:
  "data_img cardI = Some []
   \<and> map_option src (imgEl (openFromCard cardI True page0)) = Some (str ''thumb.png'')"
  by code_simp

subsection \<open>C9: badges do not accumulate\<close>

text \<open>
  C9. \<^verbatim>\<open>renderBubbles\<close> starts from an emptied container, so what the container held
  does not matter; after any non-empty run of \<^verbatim>\<open>openFromCard\<close> calls the container
  (when the overlay has one) holds the badges rendered from the \<^verbatim>\<open>data-tools\<close> list
  of the last card alone.
\<close>

theorem badges_do_not_accumulate:
  assumes "ops \<noteq> []"
  shows "modalFlags (open_sequence ops s) =
           map_option (\<lambda>_. render_each (parse_tools (or_attr (data_tools (fst (last ops))) [])) [])
             (modalFlags s)
         \<and> modalFlags (renderBubbles tools s) = map_option (\<lambda>_. render_each tools []) (modalFlags s)"
proof -
  from assms obtain xs x where ops: "ops = xs @ [x]"
    by (cases ops rule: rev_cases) auto
  have "modalFlags (open_sequence ops s) =
          map_option (\<lambda>_. render_each (parse_tools (or_attr (data_tools (fst x)) [])) [])
            (modalFlags (open_sequence xs s))"
    by (simp add: ops open_sequence_append openFromCard_modalFlags)
  also have "\<dots> = map_option (\<lambda>_. render_each (parse_tools (or_attr (data_tools (fst x)) [])) [])
            (modalFlags s)"
    using open_sequence_modalFlags_None [of xs s]
    by (cases "modalFlags s"; cases "modalFlags (open_sequence xs s)") simp_all
  finally show ?thesis by (simp add: ops renderBubbles_modalFlags)
qed

theorem badges_do_not_accumulate_witness:
  "modalFlags (open_sequence [(cardA, True), (cardB, False)] page0) =
     Some [\<lparr>className = str ''bubble-blender'', bubble_ariaLabel = str ''Blender'',
            labelSpan = \<lparr>span_className = str ''bubble-text'', span_role = Some (str ''img''),
                         span_ariaLabel = Some (str ''Blender''), textContent = []\<rparr>\<rparr>]"
proof -
  have ne: "[(cardA, True), (cardB, False)] \<noteq> []"
    by simp
  have r: "render_each (parse_tools (or_attr (data_tools cardB) [])) [] =
     [\<lparr>className = str ''bubble-blender'', bubble_ariaLabel = str ''Blender'',
       labelSpan = \<lparr>span_className = str ''bubble-text'', span_role = Some (str ''img''),
                    span_ariaLabel = Some (str ''Blender''), textContent = []\<rparr>\<rparr>]"
    by code_simp
  have m: "modalFlags page0 = Some []"
    by (simp add: page0_def)
  from badges_do_not_accumulate [OF ne, of page0 "[]"] r m
  show ?thesis by simp
qed

subsection \<open>C10: a card with an empty id does not round-trip through the URL\<close>

text \<open>
  C10. For a card whose id reads as empty, opening it with \<^verbatim>\<open>pushHistory\<close> pushes a URL
  with \<^verbatim>\<open>project=p\<close> and a payload with the empty id. \<^verbatim>\<open>openFromUrl\<close> on that URL
  looks for a card with the \<^verbatim>\<open>data-id\<close> \<^verbatim>\<open>p\<close>: with no such card it returns false and
  changes nothing, and a card it does find is another card than the one opened.
\<close>

theorem empty_id_no_roundtrip:
  assumes "or_attr (data_id c) [] = []"
  shows "sp_get (str ''project'') (searchParams (location (openFromCard c True s))) = Some (str ''p'')
         \<and> entry_state (hist_current (openFromCard c True s)) = Project []
         \<and> ((\<forall>k \<in> set cards. data_id k \<noteq> Some (str ''p'')) \<longrightarrow>
              openFromUrl cards push (openFromCard c True s) = (False, openFromCard c True s))
         \<and> (\<forall>k. query_card cards (str ''p'') = Some k \<longrightarrow>
              k \<noteq> c \<and> data_id k = Some (str ''p'')
              \<and> openFromUrl cards push (openFromCard c True s)
                  = (True, openFromCard k push (openFromCard c True s)))"
proof -
  let ?s' = "openFromCard c True s"
  have g: "sp_get (str ''project'') (searchParams (location ?s')) = Some (str ''p'')"
    using assms by (simp add: project_after_open or_str_def)
  have st: "entry_state (hist_current ?s') = Project []"
    using assms by (simp add: openFromCard_push_history)
  have none: "openFromUrl cards push ?s' = (False, ?s')"
    if "\<forall>k \<in> set cards. data_id k \<noteq> Some (str ''p'')"
  proof -
    from that have "query_card cards (str ''p'') = None"
      by (simp add: query_card_None CSS_escape_value_p)
    with g show ?thesis by (simp add: openFromUrl_def)
  qed
  have some: "k \<noteq> c \<and> data_id k = Some (str ''p'')
      \<and> openFromUrl cards push ?s' = (True, openFromCard k push ?s')"
    if "query_card cards (str ''p'') = Some k" for k
  proof -
    from that have d: "data_id k = Some (str ''p'')"
      by (auto simp: query_card_def find_Some_iff CSS_escape_value_p)
    with assms have "k \<noteq> c"
      by (auto simp: or_attr_def or_str_def str_Nil_iff)
    with d g that show ?thesis by (simp add: openFromUrl_def str_Nil_iff)
  qed
  from g st none some show ?thesis by blast
qed

theorem empty_id_no_roundtrip_witness:
  "sp_get (str ''project'') (searchParams (location (openFromCard cardE True page0))) = Some (str ''p'')
   \<and> entry_state (hist_current (openFromCard cardE True page0)) = Project []
   \<and> openFromUrl [cardA, cardE, cardB] False (openFromCard cardE True page0)
        = (False, openFromCard cardE True page0)"
proof -
  have e: "or_attr (data_id cardE) [] = []"
    by (simp add: cardE_def or_attr_def or_str_def)
  have n: "\<forall>k \<in> set [cardA, cardE, cardB]. data_id k \<noteq> Some (str ''p'')"
    by (simp add: cardA_def cardB_def cardE_def str_def)
  from empty_id_no_roundtrip [OF e, of page0 "[cardA, cardE, cardB]" False] n
  show ?thesis by blast
qed

end
